theory Spec2Isabelle
  imports Complex_Main "HOL-Library.AList" "HOL-Library.Product_Lexorder" "HOL-Library.Code_Target_Nat"
begin

section \<open>JavaScript values\<close>

text \<open>
  A JavaScript string is a sequence of UTF-16 code units, modelled as a list of
  natural numbers. \<open>ascii\<close> turns an ASCII literal into such a sequence.
\<close>

type_synonym jsstring = "nat list"

definition ascii :: "string \<Rightarrow> jsstring" where
  "ascii s = map of_char s"

text \<open>
  A JavaScript number is a finite value, \<open>NaN\<close> or one of the two infinities. A finite
  number is kept as the exact rational it denotes. Rounding to the nearest double is
  modelled where it decides whether a number is finite or zero (\<open>to_double\<close> below),
  which is all the client looks at; the two zeros are one value.
\<close>

datatype jsnum = Fin rat | NaN | PosInf | NegInf

text \<open>
  The values a response body, a parsed JSON text or a piece of view state can hold.
  An object is the list of its own enumerable properties, in the order in which
  JavaScript enumerates them (array indices ascending, then the other keys in the
  order of their creation).
\<close>

datatype jsval =
    JUndefined
  | JNull
  | JBool bool
  | JNum jsnum
  | JStr jsstring
  | JArr "jsval list"
  | JObj "(jsstring \<times> jsval) list"

datatype exn =
    SyntaxError
  | TypeError
  | Error jsval

text \<open>
  \<open>Error v\<close> is the object built by \<open>new Error(v)\<close>: its message is the string
  conversion of \<open>v\<close>, which is \<open>v\<close> itself when \<open>v\<close> is a string.
\<close>

datatype console = Warn exn | LogError jsval

datatype jstype = TyUndefined | TyObject | TyBoolean | TyNumber | TyString

fun truthy :: "jsval \<Rightarrow> bool" where
  "truthy JUndefined = False"
| "truthy JNull = False"
| "truthy (JBool b) = b"
| "truthy (JNum (Fin r)) = (r \<noteq> 0)"
| "truthy (JNum NaN) = False"
| "truthy (JNum PosInf) = True"
| "truthy (JNum NegInf) = True"
| "truthy (JStr s) = (s \<noteq> [])"
| "truthy (JArr xs) = True"
| "truthy (JObj ps) = True"

fun typeof :: "jsval \<Rightarrow> jstype" where
  "typeof JUndefined = TyUndefined"
| "typeof JNull = TyObject"
| "typeof (JBool b) = TyBoolean"
| "typeof (JNum n) = TyNumber"
| "typeof (JStr s) = TyString"
| "typeof (JArr xs) = TyObject"
| "typeof (JObj ps) = TyObject"

text \<open>
  Member access \<open>v.k\<close>, for a key \<open>k\<close> that no built-in prototype defines (the keys
  the client reads are \<open>results\<close>, \<open>movies\<close>, \<open>data\<close>, \<open>error\<close>, \<open>avg_rating\<close>,
  \<open>num_ratings\<close> and \<open>score\<close>). On \<open>null\<close> and \<open>undefined\<close> it throws.
\<close>

fun get_prop :: "jsval \<Rightarrow> jsstring \<Rightarrow> exn + jsval" where
  "get_prop JUndefined k = Inl TypeError"
| "get_prop JNull k = Inl TypeError"
| "get_prop (JObj ps) k = (case map_of ps k of Some v \<Rightarrow> Inr v | None \<Rightarrow> Inr JUndefined)"
| "get_prop v k = Inr JUndefined"

text \<open>Optional chaining \<open>v?.k\<close>, for the same keys.\<close>

fun opt_prop :: "jsval \<Rightarrow> jsstring \<Rightarrow> jsval" where
  "opt_prop (JObj ps) k = (case map_of ps k of Some v \<Rightarrow> v | None \<Rightarrow> JUndefined)"
| "opt_prop v k = JUndefined"

text \<open>
  The operator \<open>k in v\<close>, for the keys \<open>movie_id\<close> and \<open>title\<close>: a type error unless
  \<open>v\<close> is an object or an array.
\<close>

fun has_prop :: "jsstring \<Rightarrow> jsval \<Rightarrow> exn + bool" where
  "has_prop k (JObj ps) = Inr (map_of ps k \<noteq> None)"
| "has_prop k (JArr xs) = Inr False"
| "has_prop k v = Inl TypeError"

fun number_isFinite :: "jsval \<Rightarrow> bool" where
  "number_isFinite (JNum (Fin r)) = True"
| "number_isFinite v = False"

subsection \<open>Property order\<close>

definition is_digit :: "nat \<Rightarrow> bool" where
  "is_digit c = (48 \<le> c \<and> c \<le> 57)"

definition digits_value :: "jsstring \<Rightarrow> nat" where
  "digits_value s = foldl (\<lambda>a c. 10 * a + (c - 48)) 0 s"

text \<open>A key is an array index when it is the canonical decimal form of an integer below \<open>2^32 - 1\<close>.\<close>

definition array_index :: "jsstring \<Rightarrow> nat option" where
  "array_index k =
     (if k \<noteq> [] \<and> list_all is_digit k \<and> (k = [48] \<or> hd k \<noteq> 48) \<and> digits_value k < 4294967295
      then Some (digits_value k) else None)"

fun insert_index :: "nat \<Rightarrow> jsstring \<Rightarrow> jsval \<Rightarrow> (jsstring \<times> jsval) list \<Rightarrow> (jsstring \<times> jsval) list" where
  "insert_index i k v [] = [(k, v)]"
| "insert_index i k v (p # ps) =
     (case array_index (fst p) of
        Some j \<Rightarrow> if j < i then p # insert_index i k v ps else (k, v) # p # ps
      | None \<Rightarrow> (k, v) # p # ps)"

text \<open>
  Creating or overwriting the own property \<open>k\<close>: an existing property keeps its
  place, a new array index goes among the indices, any other new key goes last.
\<close>

definition obj_set :: "(jsstring \<times> jsval) list \<Rightarrow> jsstring \<Rightarrow> jsval \<Rightarrow> (jsstring \<times> jsval) list" where
  "obj_set ps k v =
     (case array_index k of
        Some i \<Rightarrow> if map_of ps k \<noteq> None then AList.update k v ps else insert_index i k v ps
      | None \<Rightarrow> AList.update k v ps)"

fun dec :: "nat \<Rightarrow> jsstring" where
  "dec n = (if n < 10 then [48 + n] else dec (n div 10) @ [48 + n mod 10])"

section \<open>The built-ins the client calls\<close>

subsection \<open>\<open>resp.replace(/\bNaN\b/g, 'null')\<close>\<close>

definition is_word :: "nat \<Rightarrow> bool" where
  "is_word c = ((48 \<le> c \<and> c \<le> 57) \<or> (65 \<le> c \<and> c \<le> 90) \<or> (97 \<le> c \<and> c \<le> 122) \<or> c = 95)"

text \<open>
  \<open>replaceNaN w s\<close> scans \<open>s\<close> from left to right; \<open>w\<close> tells whether the code unit
  before \<open>s\<close> is a word character. \<open>NaN\<close> is replaced where a word boundary stands
  on both of its sides.
\<close>

fun replaceNaN :: "bool \<Rightarrow> jsstring \<Rightarrow> jsstring" where
  "replaceNaN w [] = []"
| "replaceNaN w [c] = [c]"
| "replaceNaN w [c, d] = [c, d]"
| "replaceNaN w (c # d # e # cs) =
     (if \<not> w \<and> [c, d, e] = ascii ''NaN'' \<and> (case cs of [] \<Rightarrow> True | f # _ \<Rightarrow> \<not> is_word f)
      then ascii ''null'' @ replaceNaN True cs
      else c # replaceNaN (is_word c) (d # e # cs))"

subsection \<open>\<open>JSON.parse\<close>\<close>

datatype token =
    TLBracket | TRBracket | TLBrace | TRBrace | TComma | TColon
  | TString jsstring
  | TAtom jsstring

text \<open>
  The lexer reads one code unit at a time. Its mode tells what it is inside of: nothing,
  a string (with the code units read so far, reversed), an escape sequence, the four
  hexadecimal digits of a \<open>\u\<close> escape, or an atom (a literal name or a number).
\<close>

datatype lexmode =
    LStart
  | LString jsstring
  | LEscape jsstring
  | LUnicode jsstring "nat list"
  | LAtom jsstring

definition is_json_space :: "nat \<Rightarrow> bool" where
  "is_json_space c = (c = 9 \<or> c = 10 \<or> c = 13 \<or> c = 32)"

definition is_atom_char :: "nat \<Rightarrow> bool" where
  "is_atom_char c =
     ((48 \<le> c \<and> c \<le> 57) \<or> (65 \<le> c \<and> c \<le> 90) \<or> (97 \<le> c \<and> c \<le> 122) \<or> c = 43 \<or> c = 45 \<or> c = 46)"

definition start_char :: "nat \<Rightarrow> (token list \<times> lexmode) option" where
  "start_char c =
     (if is_json_space c then Some ([], LStart)
      else if c = 91 then Some ([TLBracket], LStart)
      else if c = 93 then Some ([TRBracket], LStart)
      else if c = 123 then Some ([TLBrace], LStart)
      else if c = 125 then Some ([TRBrace], LStart)
      else if c = 44 then Some ([TComma], LStart)
      else if c = 58 then Some ([TColon], LStart)
      else if c = 34 then Some ([], LString [])
      else if is_atom_char c then Some ([], LAtom [c])
      else None)"

definition escape_char :: "nat \<Rightarrow> nat option" where
  "escape_char c =
     (if c = 34 then Some 34
      else if c = 92 then Some 92
      else if c = 47 then Some 47
      else if c = 98 then Some 8
      else if c = 102 then Some 12
      else if c = 110 then Some 10
      else if c = 114 then Some 13
      else if c = 116 then Some 9
      else None)"

definition hex_digit :: "nat \<Rightarrow> nat option" where
  "hex_digit c =
     (if 48 \<le> c \<and> c \<le> 57 then Some (c - 48)
      else if 65 \<le> c \<and> c \<le> 70 then Some (c - 55)
      else if 97 \<le> c \<and> c \<le> 102 then Some (c - 87)
      else None)"

fun lex :: "lexmode \<Rightarrow> jsstring \<Rightarrow> token list option" where
  "lex LStart [] = Some []"
| "lex (LAtom a) [] = Some [TAtom (rev a)]"
| "lex (LString a) [] = None"
| "lex (LEscape a) [] = None"
| "lex (LUnicode a h) [] = None"
| "lex LStart (c # cs) =
     (case start_char c of
        None \<Rightarrow> None
      | Some (ts, m) \<Rightarrow> map_option (\<lambda>r. ts @ r) (lex m cs))"
| "lex (LAtom a) (c # cs) =
     (if is_atom_char c then lex (LAtom (c # a)) cs
      else case start_char c of
        None \<Rightarrow> None
      | Some (ts, m) \<Rightarrow> map_option (\<lambda>r. TAtom (rev a) # ts @ r) (lex m cs))"
| "lex (LString a) (c # cs) =
     (if c = 34 then map_option (\<lambda>r. TString (rev a) # r) (lex LStart cs)
      else if c = 92 then lex (LEscape a) cs
      else if c < 32 then None
      else lex (LString (c # a)) cs)"
| "lex (LEscape a) (c # cs) =
     (case escape_char c of
        Some e \<Rightarrow> lex (LString (e # a)) cs
      | None \<Rightarrow> if c = 117 then lex (LUnicode a []) cs else None)"
| "lex (LUnicode a h) (c # cs) =
     (case hex_digit c of
        None \<Rightarrow> None
      | Some d \<Rightarrow>
          if length h = 3 then lex (LString (foldl (\<lambda>x y. 16 * x + y) 0 (rev (d # h)) # a)) cs
          else lex (LUnicode a (d # h)) cs)"

text \<open>
  A number literal: an optional minus sign, an integer part with no leading zero, an
  optional fraction and an optional exponent. A literal whose value rounds beyond the
  largest double is an infinity, and one whose value rounds below the smallest double
  is zero.
\<close>

definition exponent :: "jsstring \<Rightarrow> int option" where
  "exponent s =
     (case s of
        [] \<Rightarrow> Some 0
      | c # r \<Rightarrow>
          if c = 101 \<or> c = 69 then
            (let neg = (r \<noteq> [] \<and> hd r = 45);
                 ds = (if r \<noteq> [] \<and> (hd r = 45 \<or> hd r = 43) then tl r else r)
             in if ds \<noteq> [] \<and> list_all is_digit ds
                then Some (if neg then - int (digits_value ds) else int (digits_value ds))
                else None)
          else None)"

definition to_double :: "rat \<Rightarrow> jsnum" where
  "to_double v =
     (if 2 ^ 1024 - 2 ^ 970 \<le> v then PosInf
      else if v \<le> - (2 ^ 1024 - 2 ^ 970) then NegInf
      else if \<bar>v\<bar> \<le> 1 / 2 ^ 1075 then Fin 0
      else Fin v)"

definition parse_number :: "jsstring \<Rightarrow> jsnum option" where
  "parse_number s =
     (let neg = (s \<noteq> [] \<and> hd s = 45);
          s1 = (if neg then tl s else s);
          ip = takeWhile is_digit s1;
          r1 = dropWhile is_digit s1;
          has_frac = (r1 \<noteq> [] \<and> hd r1 = 46);
          fp = (if has_frac then takeWhile is_digit (tl r1) else []);
          r2 = (if has_frac then dropWhile is_digit (tl r1) else r1)
      in if ip = [] \<or> (ip \<noteq> [48] \<and> hd ip = 48) \<or> (has_frac \<and> fp = []) then None
         else case exponent r2 of
           None \<Rightarrow> None
         | Some e \<Rightarrow>
             (let m = rat_of_nat (digits_value (ip @ fp));
                  e' = e - int (length fp);
                  v = (if 0 \<le> e' then m * 10 ^ nat e' else m / 10 ^ nat (- e'))
              in Some (to_double (if neg then - v else v))))"

definition atom_value :: "jsstring \<Rightarrow> jsval option" where
  "atom_value a =
     (if a = ascii ''null'' then Some JNull
      else if a = ascii ''true'' then Some (JBool True)
      else if a = ascii ''false'' then Some (JBool False)
      else map_option JNum (parse_number a))"

text \<open>
  The parser is a stack machine over the tokens. A frame is an array under construction
  (its elements, reversed), an object between two members, or an object whose next
  value belongs to a key already read. The phase tells which tokens may come next.
\<close>

datatype frame =
    FArr "jsval list"
  | FObj "(jsstring \<times> jsval) list"
  | FKey "(jsstring \<times> jsval) list" jsstring

datatype phase =
    PValue
  | PValueOrEnd
  | PKeyOrEnd
  | PKey
  | PColon
  | PAfter
  | PDone jsval

fun complete :: "jsval \<Rightarrow> frame list \<Rightarrow> (phase \<times> frame list) option" where
  "complete v [] = Some (PDone v, [])"
| "complete v (FArr vs # st) = Some (PAfter, FArr (v # vs) # st)"
| "complete v (FKey ps k # st) = Some (PAfter, FObj (obj_set ps k v) # st)"
| "complete v (FObj ps # st) = None"

fun begin_value :: "token \<Rightarrow> frame list \<Rightarrow> (phase \<times> frame list) option" where
  "begin_value TLBracket st = Some (PValueOrEnd, FArr [] # st)"
| "begin_value TLBrace st = Some (PKeyOrEnd, FObj [] # st)"
| "begin_value (TString s) st = complete (JStr s) st"
| "begin_value (TAtom a) st = (case atom_value a of None \<Rightarrow> None | Some v \<Rightarrow> complete v st)"
| "begin_value t st = None"

fun parse_step :: "token \<Rightarrow> phase \<times> frame list \<Rightarrow> (phase \<times> frame list) option" where
  "parse_step t (PValue, st) = begin_value t st"
| "parse_step TRBracket (PValueOrEnd, FArr vs # st) = complete (JArr (rev vs)) st"
| "parse_step t (PValueOrEnd, st) = begin_value t st"
| "parse_step TRBrace (PKeyOrEnd, FObj ps # st) = complete (JObj ps) st"
| "parse_step (TString k) (PKeyOrEnd, FObj ps # st) = Some (PColon, FKey ps k # st)"
| "parse_step (TString k) (PKey, FObj ps # st) = Some (PColon, FKey ps k # st)"
| "parse_step TColon (PColon, st) = Some (PValue, st)"
| "parse_step TComma (PAfter, FArr vs # st) = Some (PValue, FArr vs # st)"
| "parse_step TComma (PAfter, FObj ps # st) = Some (PKey, FObj ps # st)"
| "parse_step TRBracket (PAfter, FArr vs # st) = complete (JArr (rev vs)) st"
| "parse_step TRBrace (PAfter, FObj ps # st) = complete (JObj ps) st"
| "parse_step t s = None"

fun parse_tokens :: "token list \<Rightarrow> phase \<times> frame list \<Rightarrow> jsval option" where
  "parse_tokens [] (PDone v, st) = Some v"
| "parse_tokens [] s = None"
| "parse_tokens (t # ts) s = (case parse_step t s of None \<Rightarrow> None | Some s' \<Rightarrow> parse_tokens ts s')"

definition JSON_parse :: "jsstring \<Rightarrow> exn + jsval" where
  "JSON_parse text =
     (case lex LStart text of
        None \<Rightarrow> Inl SyntaxError
      | Some ts \<Rightarrow>
          (case parse_tokens ts (PValue, []) of
             None \<Rightarrow> Inl SyntaxError
           | Some v \<Rightarrow> Inr v))"

section \<open>Normalising a response (\<open>pages/Movie.jsx\<close>)\<close>

text \<open>
  \<open>first_array_prop v ks\<close> is the run of statements
  \<open>if (Array.isArray(v.k)) return v.k;\<close>, one for each key of \<open>ks\<close>: the array returned,
  \<open>None\<close> when control falls through, or the exception of a member access.
\<close>

fun first_array_prop :: "jsval \<Rightarrow> jsstring list \<Rightarrow> exn + jsval list option" where
  "first_array_prop v [] = Inr None"
| "first_array_prop v (k # ks) =
     (case get_prop v k of
        Inl e \<Rightarrow> Inl e
      | Inr (JArr xs) \<Rightarrow> Inr (Some xs)
      | Inr _ \<Rightarrow> first_array_prop v ks)"

text \<open>The body of the \<open>try\<close> block, entered when the response is a string.\<close>

definition parse_string_response :: "jsstring \<Rightarrow> exn + jsval list option" where
  "parse_string_response resp =
     (let safe = replaceNaN False resp in
      case JSON_parse safe of
        Inl e \<Rightarrow> Inl e
      | Inr (JArr xs) \<Rightarrow> Inr (Some xs)
      | Inr parsed \<Rightarrow> first_array_prop parsed [ascii ''results'', ascii ''movies'', ascii ''data''])"

text \<open>
  \<open>vals.every(v => typeof v === 'object' && ('movie_id' in v || 'title' in v))\<close>:
  it stops at the first element that fails the test, and an exception of the callback
  leaves \<open>every\<close>.
\<close>

fun every_movie_like :: "jsval list \<Rightarrow> exn + bool" where
  "every_movie_like [] = Inr True"
| "every_movie_like (v # vs) =
     (if typeof v = TyObject then
        (case has_prop (ascii ''movie_id'') v of
           Inl e \<Rightarrow> Inl e
         | Inr True \<Rightarrow> every_movie_like vs
         | Inr False \<Rightarrow>
             (case has_prop (ascii ''title'') v of
                Inl e \<Rightarrow> Inl e
              | Inr True \<Rightarrow> every_movie_like vs
              | Inr False \<Rightarrow> Inr False))
      else Inr False)"

text \<open>
  The last two steps of \<open>normalizeMovies\<close>, after the \<open>try\<close> block: the values of an
  object that all look like movies, or else the diagnostic and the empty list. The
  console output so far is \<open>out\<close>.
\<close>

definition object_values_or_empty :: "console list \<Rightarrow> jsval \<Rightarrow> console list \<times> (exn + jsval list)" where
  "object_values_or_empty out resp =
     (let unexpected = (out @ [LogError resp], Inr []) in
      case resp of
        JObj ps \<Rightarrow>
          (let vals = map snd ps in
           if length vals > 0 then
             (case every_movie_like vals of
                Inl e \<Rightarrow> (out, Inl e)
              | Inr True \<Rightarrow> (out, Inr vals)
              | Inr False \<Rightarrow> unexpected)
           else unexpected)
      | _ \<Rightarrow> unexpected)"

definition after_try :: "console list \<Rightarrow> jsval \<Rightarrow> console list \<times> (exn + jsval list)" where
  "after_try out resp =
     (case first_array_prop resp [ascii ''results'', ascii ''movies'', ascii ''data''] of
        Inl e \<Rightarrow> (out, Inl e)
      | Inr (Some xs) \<Rightarrow> (out, Inr xs)
      | Inr None \<Rightarrow> object_values_or_empty out resp)"

text \<open>
  \<open>normalizeMovies\<close> returns what it wrote to the console, and either the array it
  returns or the exception it throws.
\<close>

definition normalizeMovies :: "jsval \<Rightarrow> console list \<times> (exn + jsval list)" where
  "normalizeMovies resp =
     (if \<not> truthy resp then ([], Inr [])
      else case resp of
        JArr xs \<Rightarrow> ([], Inr xs)
      | JStr s \<Rightarrow>
          (case parse_string_response s of
             Inl e \<Rightarrow> after_try [Warn e] resp
           | Inr (Some xs) \<Rightarrow> ([], Inr xs)
           | Inr None \<Rightarrow> after_try [] resp)
      | _ \<Rightarrow> after_try [] resp)"

subsection \<open>\<open>sanitizeMovies\<close>\<close>

text \<open>The own enumerable properties that the spread \<open>{...m}\<close> copies.\<close>

fun spread :: "jsval \<Rightarrow> (jsstring \<times> jsval) list" where
  "spread (JObj ps) = ps"
| "spread (JArr xs) = map (\<lambda>i. (dec i, xs ! i)) [0..<length xs]"
| "spread (JStr s) = map (\<lambda>i. (dec i, JStr [s ! i])) [0..<length s]"
| "spread v = []"

text \<open>\<open>Number.isFinite(m?.k) ? m.k : null\<close>\<close>

definition finite_or_null :: "jsval \<Rightarrow> jsstring \<Rightarrow> jsval" where
  "finite_or_null m k = (if number_isFinite (opt_prop m k) then opt_prop m k else JNull)"

definition sanitizeMovie :: "jsval \<Rightarrow> jsval" where
  "sanitizeMovie m =
     JObj (obj_set (obj_set (obj_set (spread m)
       (ascii ''avg_rating'') (finite_or_null m (ascii ''avg_rating'')))
       (ascii ''num_ratings'') (finite_or_null m (ascii ''num_ratings'')))
       (ascii ''score'') (finite_or_null m (ascii ''score'')))"

text \<open>
  \<open>(arr || []).map(...)\<close>: a falsy argument stands for the empty array, and a truthy
  argument that is no array has no \<open>map\<close> method to call.
\<close>

definition sanitizeMovies :: "jsval \<Rightarrow> exn + jsval list" where
  "sanitizeMovies arr =
     (if \<not> truthy arr then Inr []
      else case arr of
        JArr xs \<Rightarrow> Inr (map sanitizeMovie xs)
      | _ \<Rightarrow> Inl TypeError)"

text \<open>The expression \<open>sanitizeMovies(normalizeMovies(data))\<close>.\<close>

definition sanitize_normalized :: "jsval \<Rightarrow> console list \<times> (exn + jsval list)" where
  "sanitize_normalized data =
     (case normalizeMovies data of
        (out, Inl e) \<Rightarrow> (out, Inl e)
      | (out, Inr xs) \<Rightarrow> (out, sanitizeMovies (JArr xs)))"

section \<open>The listing view\<close>

text \<open>
  The three state cells of a view that shows a list of movies. The error cell holds
  \<open>null\<close> (\<open>None\<close>) or the message of the error that was caught; the message of a
  \<open>TypeError\<close> is the engine's own text, which is never empty.
\<close>

datatype message = Message jsstring | TypeErrorMessage

record listing =
  movies :: jsval
  loading :: bool
  error :: "message option"

datatype setter = SetMovies jsval | SetLoading bool | SetError "message option"

fun apply_setter :: "listing \<Rightarrow> setter \<Rightarrow> listing" where
  "apply_setter st (SetMovies v) = st\<lparr>movies := v\<rparr>"
| "apply_setter st (SetLoading b) = st\<lparr>loading := b\<rparr>"
| "apply_setter st (SetError e) = st\<lparr>error := e\<rparr>"

text \<open>
  The requests of \<open>movieAPI\<close> that the views issue. The answer of the server is a
  parameter \<open>api\<close> of each fetch: the message of the error the awaited call throws, or
  the \<open>response.data\<close> it returns.
\<close>

datatype request =
    SearchMovies jsstring nat
  | PopularMovies nat
  | MoviesByGenre jsstring nat
  | SimilarMovies jsval nat

type_synonym api = "request \<Rightarrow> message + jsval"

subsection \<open>\<open>String.prototype.trim\<close>\<close>

definition is_js_space :: "nat \<Rightarrow> bool" where
  "is_js_space c =
     (c = 9 \<or> c = 10 \<or> c = 11 \<or> c = 12 \<or> c = 13 \<or> c = 32 \<or> c = 160 \<or> c = 5760
      \<or> (8192 \<le> c \<and> c \<le> 8202) \<or> c = 8232 \<or> c = 8233 \<or> c = 8239 \<or> c = 8287
      \<or> c = 12288 \<or> c = 65279)"

definition trim :: "jsstring \<Rightarrow> jsstring" where
  "trim s = rev (dropWhile is_js_space (rev (dropWhile is_js_space s)))"

subsection \<open>The page (\<open>pages/Movie.jsx\<close>)\<close>

definition page_request :: "jsstring \<Rightarrow> jsstring \<Rightarrow> request" where
  "page_request searchQuery selectedGenre =
     (if trim searchQuery \<noteq> [] then SearchMovies searchQuery 20
      else if selectedGenre = ascii ''All'' then PopularMovies 20
      else MoviesByGenre selectedGenre 20)"

text \<open>\<open>err.message || 'Failed to load movies. ...'\<close>\<close>

definition message_or_default :: "message \<Rightarrow> message" where
  "message_or_default m =
     (if m = Message [] then
        Message (ascii ''Failed to load movies. Make sure the backend is running on port 5000.'')
      else m)"

text \<open>
  The state updates of one run of \<open>fetchMovies\<close>, in the order in which they happen.
  The only exception \<open>sanitizeMovies(normalizeMovies(data))\<close> can throw is a
  \<open>TypeError\<close>.
\<close>

definition page_fetchMovies :: "api \<Rightarrow> jsstring \<Rightarrow> jsstring \<Rightarrow> setter list" where
  "page_fetchMovies api searchQuery selectedGenre =
     [SetLoading True, SetError None] @
     (case api (page_request searchQuery selectedGenre) of
        Inl m \<Rightarrow> [SetError (Some (message_or_default m))]
      | Inr data \<Rightarrow>
          (case sanitize_normalized data of
             (out, Inl e) \<Rightarrow> [SetError (Some (message_or_default TypeErrorMessage))]
           | (out, Inr xs) \<Rightarrow> [SetMovies (JArr xs)])) @
     [SetLoading False]"

subsection \<open>The hooks (\<open>hooks/useMovies.js\<close>)\<close>

definition hook_request :: "jsstring \<Rightarrow> request" where
  "hook_request selectedGenre =
     (if selectedGenre = ascii ''All'' then PopularMovies 20 else MoviesByGenre selectedGenre 20)"

definition useMovies_fetchMovies :: "api \<Rightarrow> jsstring \<Rightarrow> setter list" where
  "useMovies_fetchMovies api selectedGenre =
     [SetLoading True, SetError None] @
     (case api (hook_request selectedGenre) of
        Inl m \<Rightarrow> [SetError (Some m)]
      | Inr data \<Rightarrow> [SetMovies data]) @
     [SetLoading False]"

text \<open>
  The state of \<open>useMovieSearch\<close>, and \<open>search\<close>: the requests it issues and the state
  it leaves.
\<close>

record search_listing =
  results :: jsval
  search_loading :: bool
  search_error :: "message option"

definition search :: "api \<Rightarrow> jsstring \<Rightarrow> search_listing \<Rightarrow> request list \<times> search_listing" where
  "search api query st =
     (if query = [] \<or> length (trim query) = 0 then ([], st\<lparr>results := JArr []\<rparr>)
      else
        ([SearchMovies query 10],
         (case api (SearchMovies query 10) of
            Inl m \<Rightarrow> st\<lparr>search_error := Some m, search_loading := False\<rparr>
          | Inr data \<Rightarrow> st\<lparr>search_error := None, results := data, search_loading := False\<rparr>)))"

subsection \<open>Favourites\<close>

text \<open>
  The updater that \<open>toggleFavorite\<close> hands to \<open>setFavorites\<close>. An identifier is any
  value on which \<open>includes\<close> and \<open>!==\<close> agree, that is any value but \<open>NaN\<close>,
  which no identifier read from a response is.
\<close>

definition toggleFavorite :: "'a \<Rightarrow> 'a list \<Rightarrow> 'a list" where
  "toggleFavorite i prev = (if i \<in> set prev then filter (\<lambda>fav. fav \<noteq> i) prev else prev @ [i])"

section \<open>The error interceptor (\<open>services/api.js\<close>)\<close>

record http_response =
  status :: nat
  data :: jsval

text \<open>
  The error handed to the interceptor: the response when one was received, whether a
  request was made, and the error's own message.
\<close>

record axios_error =
  response :: "http_response option"
  request :: bool
  err_message :: jsstring

definition interceptor_rejected :: "axios_error \<Rightarrow> exn" where
  "interceptor_rejected err =
     (case response err of
        Some r \<Rightarrow>
          (case get_prop (data r) (ascii ''error'') of
             Inl e \<Rightarrow> e
           | Inr v \<Rightarrow> Error (if truthy v then v else JStr (ascii ''Server error occurred'')))
      | None \<Rightarrow>
          if request err then
            Error (JStr (ascii ''No response from server. Please check if the backend is running.''))
          else Error (JStr (ascii ''Request failed: '' @ err_message err)))"

text \<open>
  The library settles a request with the response when its status is in the range
  200 to 299 and rejects it with an error that carries the response otherwise; the
  first handler of the interceptor returns the response, the second is
  \<open>interceptor_rejected\<close>.
\<close>

definition settle :: "http_response \<Rightarrow> jsstring \<Rightarrow> exn + http_response" where
  "settle r m =
     (if 200 \<le> status r \<and> status r < 300 then Inr r
      else Inl (interceptor_rejected \<lparr>response = Some r, request = True, err_message = m\<rparr>))"

section \<open>The debounced fetch effect (\<open>pages/Movie.jsx\<close>)\<close>

text \<open>
  The effect with the dependencies \<open>[selectedGenre, searchQuery]\<close> sets a timer whose
  callback is \<open>fetchMovies\<close>, closed over the query and the genre of that render, and
  returns a cleanup that clears this timer. A pending timer is its identifier, the
  time from which it may fire, and the two captured values. Times are in milliseconds.
\<close>

record timer =
  timer_id :: nat
  due :: nat
  query :: jsstring
  genre :: jsstring

record effects =
  searchQuery :: jsstring
  selectedGenre :: jsstring
  timers :: "timer list"
  debounceTimer :: "nat option"
  next_id :: nat

text \<open>\<open>clearTimeout(debounceTimer)\<close>, the cleanup of the previous run of the effect.\<close>

definition cleanup :: "effects \<Rightarrow> effects" where
  "cleanup s =
     (case debounceTimer s of
        None \<Rightarrow> s
      | Some i \<Rightarrow> s\<lparr>timers := filter (\<lambda>t. timer_id t \<noteq> i) (timers s), debounceTimer := None\<rparr>)"

text \<open>\<open>setTimeout(fetchMovies, searchQuery ? 500 : 0)\<close>, the body of the effect, run at time \<open>now\<close>.\<close>

definition run_effect :: "nat \<Rightarrow> effects \<Rightarrow> effects" where
  "run_effect now s =
     s\<lparr>timers := timers s @
          [\<lparr>timer_id = next_id s,
            due = now + (if searchQuery s \<noteq> [] then 500 else 0),
            query = searchQuery s,
            genre = selectedGenre s\<rparr>],
       debounceTimer := Some (next_id s),
       next_id := Suc (next_id s)\<rparr>"

text \<open>
  A render at time \<open>now\<close> with the query \<open>q\<close> and the genre \<open>g\<close>: when a dependency has
  changed, the cleanup of the previous run is called and the effect runs again.
\<close>

definition render :: "nat \<Rightarrow> jsstring \<Rightarrow> jsstring \<Rightarrow> effects \<Rightarrow> effects" where
  "render now q g s =
     (if q = searchQuery s \<and> g = selectedGenre s then s
      else run_effect now (cleanup (s\<lparr>searchQuery := q, selectedGenre := g\<rparr>)))"

text \<open>The first render: the initial state of the page, and the first run of the effect.\<close>

definition mount :: "nat \<Rightarrow> effects" where
  "mount now =
     run_effect now
       \<lparr>searchQuery = [], selectedGenre = ascii ''All'', timers = [], debounceTimer = None, next_id = 0\<rparr>"

text \<open>
  At time \<open>now\<close> the timers that are due fire: each calls \<open>fetchMovies\<close>, which
  dispatches the request for the values it captured.
\<close>

definition fired :: "nat \<Rightarrow> effects \<Rightarrow> timer list" where
  "fired now s = filter (\<lambda>t. due t \<le> now) (timers s)"

definition dispatched :: "nat \<Rightarrow> effects \<Rightarrow> request list" where
  "dispatched now s = map (\<lambda>t. page_request (query t) (genre t)) (fired now s)"

definition fire :: "nat \<Rightarrow> effects \<Rightarrow> effects" where
  "fire now s = s\<lparr>timers := filter (\<lambda>t. \<not> due t \<le> now) (timers s)\<rparr>"

text \<open>
  What happens to the page: a keystroke in the search box (\<open>setSearchQuery\<close>), a click
  on a genre (\<open>setSelectedGenre\<close> and \<open>setSearchQuery('')\<close> in one render), or the
  timers firing. Each event carries the time at which it happens.
\<close>

datatype event = Keystroke nat jsstring | GenreClick nat jsstring | Fire nat

fun step :: "effects \<Rightarrow> event \<Rightarrow> effects" where
  "step s (Keystroke now q) = render now q (selectedGenre s) s"
| "step s (GenreClick now g) = render now [] g s"
| "step s (Fire now) = fire now s"

definition run :: "nat \<Rightarrow> event list \<Rightarrow> effects" where
  "run t0 evs = foldl step (mount t0) evs"

section \<open>The recommendation service\<close>

text \<open>
  Modelled from the spec: the data model of the recommendation service, whose code is
  not among the sources. A snapshot is the catalog, the popularity score of each
  movie and the similarity row of each movie, a list of pairs of another movie and a
  similarity score.
\<close>

record movie =
  movie_id :: int
  title :: jsstring
  genres :: "jsstring list"

record snapshot =
  catalog :: "movie list"
  popularity :: "int \<Rightarrow> rat"
  similarity :: "int \<Rightarrow> (int \<times> rat) list"

datatype service_error = InvalidArgument | NotFound

text \<open>
  Modelled from the spec: \<open>getPopular\<close> of the recommendation service, whose code is
  not among the sources. It returns the top \<open>n\<close> movies by popularity score,
  descending, ties broken by \<open>movie_id\<close> ascending, and fails with \<open>InvalidArgument\<close>
  if \<open>n <= 0\<close>.
\<close>

definition getPopular :: "snapshot \<Rightarrow> int \<Rightarrow> service_error + movie list" where
  "getPopular snap n =
     (if n \<le> 0 then Inl InvalidArgument
      else Inr (take (nat n)
             (sort_key (\<lambda>m. (- popularity snap (movie_id m), movie_id m)) (catalog snap))))"

text \<open>
  Modelled from the spec: \<open>getSimilar\<close> of the recommendation service, whose code is
  not among the sources. It looks the movie up in its similarity row and returns the
  top \<open>n\<close> neighbours by similarity score, descending, without the query movie itself;
  it fails with \<open>NotFound\<close> if the movie is absent from the catalog.
\<close>

definition getSimilar :: "snapshot \<Rightarrow> int \<Rightarrow> int \<Rightarrow> service_error + (int \<times> rat) list" where
  "getSimilar snap movieId n =
     (if movieId \<notin> movie_id ` set (catalog snap) then Inl NotFound
      else Inr (take (nat n)
             (sort_key (\<lambda>p. - snd p) (filter (\<lambda>p. fst p \<noteq> movieId) (similarity snap movieId)))))"

section \<open>Predicates used in the statements\<close>

text \<open>A state update that replaces the list of movies.\<close>

fun is_SetMovies :: "setter \<Rightarrow> bool" where
  "is_SetMovies (SetMovies v) = True"
| "is_SetMovies s = False"

text \<open>
  Every pending timer was set by the current run of the effect: it captured the current
  query and genre, and it is the timer the next cleanup clears.
\<close>

definition pending_current :: "effects \<Rightarrow> bool" where
  "pending_current s \<longleftrightarrow>
     (\<forall>t\<in>set (timers s).
        query t = searchQuery s \<and> genre t = selectedGenre s \<and> debounceTimer s = Some (timer_id t))"

section \<open>Properties of the response normalisation\<close>

subsection \<open>Literals\<close>

lemma ascii_eq_iff: "ascii a = ascii b \<longleftrightarrow> a = b"
proof -
  have "inj (of_char :: char \<Rightarrow> nat)"
    by (simp add: inj_def)
  then show ?thesis
    by (simp add: ascii_def inj_map_eq_map)
qed

lemma ascii_Nil_iff: "ascii a = [] \<longleftrightarrow> a = []" "[] = ascii a \<longleftrightarrow> a = []"
  by (auto simp: ascii_def)


subsection \<open>A response body with a \<open>NaN\<close> token\<close>

lemma replaceNaN_example:
  \<open>replaceNaN False (ascii ''[{"movie_id":1,"title":"X","avg_rating":NaN}]'') =
     ascii ''[{"movie_id":1,"title":"X","avg_rating":null}]''\<close>
  by (simp add: ascii_def is_word_def)

lemma lex_example:
  \<open>lex LStart (ascii ''[{"movie_id":1,"title":"X","avg_rating":null}]'') =
     Some [TLBracket, TLBrace, TString (ascii ''movie_id''), TColon, TAtom (ascii ''1''), TComma,
       TString (ascii ''title''), TColon, TString (ascii ''X''), TComma,
       TString (ascii ''avg_rating''), TColon, TAtom (ascii ''null''), TRBrace, TRBracket]\<close>
  by (simp add: ascii_def start_char_def is_json_space_def is_atom_char_def escape_char_def)

lemma atom_one: "atom_value (ascii ''1'') = Some (JNum (Fin 1))"
  by (simp add: atom_value_def parse_number_def ascii_def is_digit_def exponent_def
      digits_value_def to_double_def)

lemma atom_null: "atom_value (ascii ''null'') = Some JNull"
  by (simp add: atom_value_def)

lemma array_index_letters:
  "array_index (ascii ''movie_id'') = None" "array_index (ascii ''title'') = None"
  "array_index (ascii ''avg_rating'') = None" "array_index (ascii ''num_ratings'') = None"
  "array_index (ascii ''score'') = None" "array_index (ascii ''a'') = None"
  by (simp_all add: array_index_def ascii_def is_digit_def)

lemma parse_example:
  "parse_tokens [TLBracket, TLBrace, TString (ascii ''movie_id''), TColon, TAtom (ascii ''1''), TComma,
       TString (ascii ''title''), TColon, TString (ascii ''X''), TComma,
       TString (ascii ''avg_rating''), TColon, TAtom (ascii ''null''), TRBrace, TRBracket] (PValue, []) =
     Some (JArr [JObj [(ascii ''movie_id'', JNum (Fin 1)), (ascii ''title'', JStr (ascii ''X'')),
       (ascii ''avg_rating'', JNull)]])"
  by (simp add: atom_one atom_null obj_set_def array_index_letters) (simp add: ascii_def)

lemma parse_json_example:
  \<open>JSON_parse (replaceNaN False (ascii ''[{"movie_id":1,"title":"X","avg_rating":NaN}]'')) =
     Inr (JArr [JObj [(ascii ''movie_id'', JNum (Fin 1)), (ascii ''title'', JStr (ascii ''X'')),
       (ascii ''avg_rating'', JNull)]])\<close>
  by (simp only: replaceNaN_example JSON_parse_def lex_example parse_example option.case)

lemma truthy_example: \<open>truthy (JStr (ascii ''[{"movie_id":1,"title":"X","avg_rating":NaN}]''))\<close>
  by (simp add: ascii_def)

lemma normalize_example:
  \<open>normalizeMovies (JStr (ascii ''[{"movie_id":1,"title":"X","avg_rating":NaN}]'')) =
     ([], Inr [JObj [(ascii ''movie_id'', JNum (Fin 1)), (ascii ''title'', JStr (ascii ''X'')),
       (ascii ''avg_rating'', JNull)]])\<close>
  by (simp only: normalizeMovies_def parse_string_response_def Let_def truthy_example
      parse_json_example jsval.case sum.case option.case not_True_eq_False if_False)

lemma sanitize_example:
  "sanitizeMovie (JObj [(ascii ''movie_id'', JNum (Fin 1)), (ascii ''title'', JStr (ascii ''X'')),
       (ascii ''avg_rating'', JNull)]) =
   JObj [(ascii ''movie_id'', JNum (Fin 1)), (ascii ''title'', JStr (ascii ''X'')),
       (ascii ''avg_rating'', JNull), (ascii ''num_ratings'', JNull), (ascii ''score'', JNull)]"
  by (simp add: sanitizeMovie_def finite_or_null_def obj_set_def array_index_letters)
     (simp add: ascii_def)

text \<open>
  C1. Given the string \<open>[{"movie_id":1,"title":"X","avg_rating":NaN}]\<close>,
  \<open>normalizeMovies\<close> followed by \<open>sanitizeMovies\<close> throws nothing, writes nothing to the
  console and returns a list of one movie, whose \<open>movie_id\<close> is 1, whose \<open>title\<close> is
  \<open>X\<close> and whose \<open>avg_rating\<close> is \<open>null\<close> (as are the two numeric fields the
  response does not have).
\<close>

theorem nan_string_response_is_sanitized:
  \<open>sanitize_normalized (JStr (ascii ''[{"movie_id":1,"title":"X","avg_rating":NaN}]'')) =
     ([], Inr [JObj [(ascii ''movie_id'', JNum (Fin 1)), (ascii ''title'', JStr (ascii ''X'')),
       (ascii ''avg_rating'', JNull), (ascii ''num_ratings'', JNull), (ascii ''score'', JNull)]])\<close>
  by (simp only: sanitize_normalized_def normalize_example sanitizeMovies_def sanitize_example
      prod.case sum.case truthy.simps jsval.case not_True_eq_False if_False list.map)

subsection \<open>When \<open>normalizeMovies\<close> throws\<close>

lemma get_prop_truthy: "truthy resp \<Longrightarrow> \<exists>v. get_prop resp k = Inr v"
  by (cases resp) (simp_all split: option.splits)

lemma first_array_prop_no_throw:
  assumes "truthy resp"
  shows "first_array_prop resp ks \<noteq> Inl e"
proof (induction ks)
  case Nil
  show ?case by simp
next
  case (Cons k ks)
  from assms obtain v where "get_prop resp k = Inr v"
    using get_prop_truthy by blast
  with Cons show ?case
    by (cases v) simp_all
qed

lemma every_movie_like_throws:
  "every_movie_like vs = Inl e \<Longrightarrow> JNull \<in> set vs \<and> e = TypeError"
proof (induction vs)
  case Nil
  then show ?case by simp
next
  case (Cons v vs)
  then show ?case
    by (cases v) (auto split: if_splits sum.splits bool.splits)
qed

lemma object_values_or_empty_throws:
  assumes "object_values_or_empty out resp = (out', Inl e)"
  shows "\<exists>ps. resp = JObj ps \<and> every_movie_like (map snd ps) = Inl e"
proof (cases resp)
  case (JObj ps)
  show ?thesis
  proof (cases "every_movie_like (map snd ps)")
    case (Inl e')
    with JObj assms show ?thesis
      by (simp add: object_values_or_empty_def Let_def split: if_splits)
  next
    case (Inr b)
    with JObj assms show ?thesis
      by (cases b) (simp_all add: object_values_or_empty_def Let_def split: if_splits)
  qed
qed (use assms in \<open>simp_all add: object_values_or_empty_def\<close>)

lemma after_try_throws:
  assumes "truthy resp" and "after_try out resp = (out', Inl e)"
  shows "\<exists>ps. resp = JObj ps \<and> JNull \<in> snd ` set ps \<and> e = TypeError"
proof (cases "first_array_prop resp [ascii ''results'', ascii ''movies'', ascii ''data'']")
  case (Inl e')
  with assms(1) show ?thesis
    using first_array_prop_no_throw by blast
next
  case (Inr r)
  show ?thesis
  proof (cases r)
    case None
    with Inr assms(2) have "object_values_or_empty out resp = (out', Inl e)"
      by (simp add: after_try_def)
    then obtain ps where "resp = JObj ps" and "every_movie_like (map snd ps) = Inl e"
      using object_values_or_empty_throws by blast
    then show ?thesis
      using every_movie_like_throws [of "map snd ps" e] by simp
  next
    case (Some xs)
    with Inr assms(2) show ?thesis
      by (simp add: after_try_def)
  qed
qed

lemma normalizeMovies_after_try:
  assumes "normalizeMovies resp = (out, Inl e)"
  shows "truthy resp \<and> (\<exists>out0. after_try out0 resp = (out, Inl e))"
proof (cases "truthy resp")
  case False
  with assms show ?thesis
    by (simp add: normalizeMovies_def)
next
  case True
  show ?thesis
  proof (cases resp)
    case (JStr s)
    show ?thesis
    proof (cases "parse_string_response s")
      case (Inl e')
      with JStr True assms show ?thesis
        by (auto simp: normalizeMovies_def)
    next
      case (Inr r)
      with JStr True assms show ?thesis
        by (cases r) (auto simp: normalizeMovies_def)
    qed
  qed (use True assms in \<open>auto simp: normalizeMovies_def\<close>)
qed

lemma normalizeMovies_throws_only_on_null_member:
  assumes "normalizeMovies resp = (out, Inl e)"
  shows "\<exists>ps. resp = JObj ps \<and> JNull \<in> snd ` set ps \<and> e = TypeError"
  using normalizeMovies_after_try [OF assms] after_try_throws by blast

lemma normalizeMovies_returns:
  assumes "\<forall>ps. resp = JObj ps \<longrightarrow> JNull \<notin> snd ` set ps"
  shows "\<exists>out xs. normalizeMovies resp = (out, Inr xs)"
proof -
  obtain out r where n: "normalizeMovies resp = (out, r)"
    by (cases "normalizeMovies resp")
  show ?thesis
  proof (cases r)
    case (Inl e)
    with n assms show ?thesis
      using normalizeMovies_throws_only_on_null_member by blast
  next
    case (Inr xs)
    with n show ?thesis
      by blast
  qed
qed

text \<open>
  C2. \<open>normalizeMovies\<close> is meant never to throw, and to answer the empty list with a
  diagnostic when it cannot read the response. On the object \<open>{"a": null}\<close> it
  throws a \<open>TypeError\<close>: the test \<open>typeof v === 'object'\<close> lets \<open>null\<close> through
  to the operator \<open>in\<close>.
\<close>

theorem normalizeMovies_throws_on_null_member:
  "normalizeMovies (JObj [(ascii ''a'', JNull)]) = ([], Inl TypeError)"
  by (simp add: normalizeMovies_def after_try_def object_values_or_empty_def ascii_eq_iff)

subsection \<open>The numeric fields\<close>

lemma map_of_insert_index:
  "map_of ps k = None \<Longrightarrow>
     map_of (insert_index i k v ps) k' = (if k' = k then Some v else map_of ps k')"
  by (induction ps) (auto split: option.splits if_splits)

lemma map_of_obj_set:
  "map_of (obj_set ps k v) k' = (if k' = k then Some v else map_of ps k')"
  by (auto simp: obj_set_def map_of_insert_index update_conv' split: option.splits)

lemma finite_or_null_cases:
  "finite_or_null m k = JNull \<or> (\<exists>r. finite_or_null m k = JNum (Fin r))"
  by (cases "opt_prop m k" rule: number_isFinite.cases) (simp_all add: finite_or_null_def)

lemma opt_prop_sanitizeMovie:
  "opt_prop (sanitizeMovie m) (ascii ''avg_rating'') = finite_or_null m (ascii ''avg_rating'')"
  "opt_prop (sanitizeMovie m) (ascii ''num_ratings'') = finite_or_null m (ascii ''num_ratings'')"
  "opt_prop (sanitizeMovie m) (ascii ''score'') = finite_or_null m (ascii ''score'')"
  by (simp_all add: sanitizeMovie_def map_of_obj_set ascii_eq_iff)

lemma sanitize_normalized_map:
  assumes "sanitize_normalized d = (out, Inr xs)"
  shows "\<exists>ys. xs = map sanitizeMovie ys"
proof -
  obtain out' r where n: "normalizeMovies d = (out', r)"
    by (cases "normalizeMovies d")
  show ?thesis
  proof (cases r)
    case (Inl e)
    with n assms show ?thesis
      by (simp add: sanitize_normalized_def)
  next
    case (Inr ys)
    with n assms have "xs = map sanitizeMovie ys"
      by (simp add: sanitize_normalized_def sanitizeMovies_def)
    then show ?thesis ..
  qed
qed

lemma page_fields_finite_or_null:
  assumes "sanitize_normalized d = (out, Inr xs)" and "m \<in> set xs"
    and "k \<in> {ascii ''avg_rating'', ascii ''num_ratings'', ascii ''score''}"
  shows "opt_prop m k = JNull \<or> (\<exists>r. opt_prop m k = JNum (Fin r))"
proof -
  from assms(1,2) obtain y where "m = sanitizeMovie y"
    using sanitize_normalized_map by fastforce
  with assms(3) show ?thesis
    using finite_or_null_cases [of y k] by (auto simp: opt_prop_sanitizeMovie)
qed

text \<open>
  C3. Every movie a fetch stores is meant to have \<open>avg_rating\<close>, \<open>num_ratings\<close> and
  \<open>score\<close> either finite or \<open>null\<close>. The page does that (lemma
  \<open>page_fields_finite_or_null\<close>); the hook \<open>useMovies\<close> stores the response as it
  came, so that a movie with no \<open>avg_rating\<close> is stored with that field \<open>undefined\<close>.
\<close>

theorem hook_stores_unsanitized_movies:
  "movies (foldl apply_setter st
     (useMovies_fetchMovies
        (\<lambda>r. Inr (JArr [JObj [(ascii ''movie_id'', JNum (Fin 1)), (ascii ''title'', JStr (ascii ''X''))]]))
        (ascii ''All''))) =
     JArr [JObj [(ascii ''movie_id'', JNum (Fin 1)), (ascii ''title'', JStr (ascii ''X''))]]
   \<and> opt_prop (JObj [(ascii ''movie_id'', JNum (Fin 1)), (ascii ''title'', JStr (ascii ''X''))])
        (ascii ''avg_rating'') = JUndefined"
  by (simp add: useMovies_fetchMovies_def ascii_eq_iff)

section \<open>Properties of the views\<close>

subsection \<open>Searching for nothing\<close>

lemma trim_blank: "\<forall>c\<in>set q. is_js_space c \<Longrightarrow> trim q = []"
  by (auto simp: trim_def dest: set_dropWhileD)

text \<open>
  C4. For a query that is empty or made of white space only, \<open>search\<close> issues no
  request, stores the empty list as the results and leaves the error cell as it was.
\<close>

theorem blank_search_is_empty:
  "\<forall>c\<in>set q. is_js_space c \<Longrightarrow> search api q st = ([], st\<lparr>results := JArr []\<rparr>)"
  by (simp add: search_def trim_blank)

theorem blank_search_is_empty_witness:
  "is_js_space 32 \<and> is_js_space 9 \<and> is_js_space 160 \<and>
   search (\<lambda>r. Inl (Message (ascii ''down''))) [32, 9, 160]
     \<lparr>results = JArr [JNull], search_loading = False, search_error = None\<rparr> =
   ([], \<lparr>results = JArr [], search_loading = False, search_error = None\<rparr>)"
proof -
  have h: "\<forall>c\<in>set [32, 9, 160]. is_js_space c" by (simp add: is_js_space_def)
  show ?thesis
    using h blank_search_is_empty [OF h, of "\<lambda>r. Inl (Message (ascii ''down''))"
      "\<lparr>results = JArr [JNull], search_loading = False, search_error = None\<rparr>"]
    by simp
qed

subsection \<open>Toggling a favourite\<close>

text \<open>
  C9. On a list of favourites with no duplicate, \<open>toggleFavorite\<close> gives a list with no
  duplicate, and toggling the same identifier twice gives a list with exactly the
  members of the original.
\<close>

theorem toggleFavorite_twice:
  "distinct prev \<Longrightarrow>
     distinct (toggleFavorite i prev) \<and>
     distinct (toggleFavorite i (toggleFavorite i prev)) \<and>
     set (toggleFavorite i (toggleFavorite i prev)) = set prev"
  by (auto simp: toggleFavorite_def)

theorem toggleFavorite_twice_witness:
  "distinct [1, 2, 3 :: int] \<and>
   toggleFavorite 2 [1, 2, 3 :: int] = [1, 3] \<and>
   toggleFavorite 2 (toggleFavorite 2 [1, 2, 3 :: int]) = [1, 3, 2] \<and>
   distinct (toggleFavorite 2 [1, 2, 3 :: int]) \<and>
   distinct (toggleFavorite 2 (toggleFavorite 2 [1, 2, 3 :: int])) \<and>
   set (toggleFavorite 2 (toggleFavorite 2 [1, 2, 3 :: int])) = set [1, 2, 3]"
proof -
  have h: "distinct [1, 2, 3 :: int]" by simp
  show ?thesis
    using h toggleFavorite_twice [OF h, of 2] by (simp add: toggleFavorite_def)
qed

subsection \<open>A fetch that fails\<close>

lemma movies_apply_setter: "\<not> is_SetMovies x \<Longrightarrow> movies (apply_setter st x) = movies st"
  by (cases x) simp_all

lemma movies_foldl_setters:
  "\<forall>x\<in>set xs. \<not> is_SetMovies x \<Longrightarrow> movies (foldl apply_setter st xs) = movies st"
  by (induction xs arbitrary: st) (simp_all add: movies_apply_setter)

lemma movies_prefix_setters:
  assumes "\<forall>x\<in>set xs. \<not> is_SetMovies x"
  shows "movies (foldl apply_setter st (take n xs)) = movies st"
proof -
  have "\<forall>x\<in>set (take n xs). \<not> is_SetMovies x"
    using assms by (auto dest: in_set_takeD)
  then show ?thesis
    by (rule movies_foldl_setters)
qed

text \<open>The state updates of a fetch whose request is rejected, or whose response makes
  the normalisation throw.\<close>

lemma page_fetchMovies_rejected:
  "api (page_request q g) = Inl m \<Longrightarrow>
     page_fetchMovies api q g =
       [SetLoading True, SetError None, SetError (Some (message_or_default m)), SetLoading False]"
  by (simp add: page_fetchMovies_def)

lemma page_fetchMovies_thrown:
  "api (page_request q g) = Inr d \<Longrightarrow> sanitize_normalized d = (out, Inl e) \<Longrightarrow>
     page_fetchMovies api q g =
       [SetLoading True, SetError None, SetError (Some TypeErrorMessage), SetLoading False]"
  by (simp add: page_fetchMovies_def message_or_default_def)

lemma useMovies_fetchMovies_rejected:
  "api (hook_request g) = Inl m \<Longrightarrow>
     useMovies_fetchMovies api g =
       [SetLoading True, SetError None, SetError (Some m), SetLoading False]"
  by (simp add: useMovies_fetchMovies_def)

text \<open>
  C10. A fetch of the listing that fails leaves the list of movies as it was after every
  one of its state updates, and the state it ends in differs from the one it started
  in by the loading flag and the error only. The fetch of the page fails when the
  request is rejected or when \<open>sanitizeMovies(normalizeMovies(data))\<close> throws; the
  fetch of the hook \<open>useMovies\<close> fails when the request is rejected. In each case
  the error cell ends up holding the message of the error.
\<close>

theorem failed_fetch_keeps_movies:
  "(api (page_request q g) = Inl m \<longrightarrow>
      (\<forall>n. movies (foldl apply_setter st (take n (page_fetchMovies api q g))) = movies st) \<and>
      foldl apply_setter st (page_fetchMovies api q g) =
        st\<lparr>loading := False, error := Some (message_or_default m)\<rparr>) \<and>
   (api (page_request q g) = Inr d \<and> sanitize_normalized d = (out, Inl e) \<longrightarrow>
      (\<forall>n. movies (foldl apply_setter st (take n (page_fetchMovies api q g))) = movies st) \<and>
      foldl apply_setter st (page_fetchMovies api q g) =
        st\<lparr>loading := False, error := Some TypeErrorMessage\<rparr>) \<and>
   (api (hook_request g) = Inl m' \<longrightarrow>
      (\<forall>n. movies (foldl apply_setter st (take n (useMovies_fetchMovies api g))) = movies st) \<and>
      foldl apply_setter st (useMovies_fetchMovies api g) =
        st\<lparr>loading := False, error := Some m'\<rparr>)"
proof (intro conjI impI allI)
  fix n
  assume "api (page_request q g) = Inl m"
  then have "page_fetchMovies api q g =
       [SetLoading True, SetError None, SetError (Some (message_or_default m)), SetLoading False]"
    by (rule page_fetchMovies_rejected)
  then show "movies (foldl apply_setter st (take n (page_fetchMovies api q g))) = movies st"
    by (intro movies_prefix_setters) simp
next
  assume "api (page_request q g) = Inl m"
  then show "foldl apply_setter st (page_fetchMovies api q g) =
        st\<lparr>loading := False, error := Some (message_or_default m)\<rparr>"
    by (simp add: page_fetchMovies_rejected)
next
  fix n
  assume "api (page_request q g) = Inr d \<and> sanitize_normalized d = (out, Inl e)"
  then have "page_fetchMovies api q g =
       [SetLoading True, SetError None, SetError (Some TypeErrorMessage), SetLoading False]"
    using page_fetchMovies_thrown by blast
  then show "movies (foldl apply_setter st (take n (page_fetchMovies api q g))) = movies st"
    by (intro movies_prefix_setters) simp
next
  assume "api (page_request q g) = Inr d \<and> sanitize_normalized d = (out, Inl e)"
  then have "page_fetchMovies api q g =
       [SetLoading True, SetError None, SetError (Some TypeErrorMessage), SetLoading False]"
    using page_fetchMovies_thrown by blast
  then show "foldl apply_setter st (page_fetchMovies api q g) =
        st\<lparr>loading := False, error := Some TypeErrorMessage\<rparr>"
    by simp
next
  fix n
  assume "api (hook_request g) = Inl m'"
  then have "useMovies_fetchMovies api g =
       [SetLoading True, SetError None, SetError (Some m'), SetLoading False]"
    by (rule useMovies_fetchMovies_rejected)
  then show "movies (foldl apply_setter st (take n (useMovies_fetchMovies api g))) = movies st"
    by (intro movies_prefix_setters) simp
next
  assume "api (hook_request g) = Inl m'"
  then show "foldl apply_setter st (useMovies_fetchMovies api g) =
        st\<lparr>loading := False, error := Some m'\<rparr>"
    by (simp add: useMovies_fetchMovies_rejected)
qed

lemma sanitize_normalized_null_member:
  "sanitize_normalized (JObj [(ascii ''a'', JNull)]) = ([], Inl TypeError)"
  by (simp add: sanitize_normalized_def normalizeMovies_def after_try_def
      object_values_or_empty_def ascii_eq_iff)

theorem failed_fetch_keeps_movies_witness:
  "foldl apply_setter \<lparr>movies = JArr [JNull], loading = False, error = None\<rparr>
     (page_fetchMovies (\<lambda>r. Inl (Message (ascii ''down''))) [] (ascii ''All'')) =
     \<lparr>movies = JArr [JNull], loading = False, error = Some (Message (ascii ''down''))\<rparr> \<and>
   (\<forall>n. movies (foldl apply_setter \<lparr>movies = JArr [JNull], loading = False, error = None\<rparr>
      (take n (page_fetchMovies (\<lambda>r. Inl (Message (ascii ''down''))) [] (ascii ''All'')))) = JArr [JNull]) \<and>
   foldl apply_setter \<lparr>movies = JArr [JNull], loading = False, error = None\<rparr>
     (page_fetchMovies (\<lambda>r. Inr (JObj [(ascii ''a'', JNull)])) [] (ascii ''All'')) =
     \<lparr>movies = JArr [JNull], loading = False, error = Some TypeErrorMessage\<rparr> \<and>
   (\<forall>n. movies (foldl apply_setter \<lparr>movies = JArr [JNull], loading = False, error = None\<rparr>
      (take n (page_fetchMovies (\<lambda>r. Inr (JObj [(ascii ''a'', JNull)])) [] (ascii ''All'')))) = JArr [JNull]) \<and>
   foldl apply_setter \<lparr>movies = JArr [JNull], loading = False, error = None\<rparr>
     (useMovies_fetchMovies (\<lambda>r. Inl (Message (ascii ''down''))) (ascii ''All'')) =
     \<lparr>movies = JArr [JNull], loading = False, error = Some (Message (ascii ''down''))\<rparr> \<and>
   (\<forall>n. movies (foldl apply_setter \<lparr>movies = JArr [JNull], loading = False, error = None\<rparr>
      (take n (useMovies_fetchMovies (\<lambda>r. Inl (Message (ascii ''down''))) (ascii ''All'')))) = JArr [JNull])"
proof -
  let ?st = "\<lparr>movies = JArr [JNull], loading = False, error = None\<rparr>"
  let ?down = "\<lambda>r :: request. (Inl (Message (ascii ''down'')) :: message + jsval)"
  let ?bad = "\<lambda>r :: request. (Inr (JObj [(ascii ''a'', JNull)]) :: message + jsval)"
  have d: "message_or_default (Message (ascii ''down'')) = Message (ascii ''down'')"
    by (simp add: message_or_default_def ascii_Nil_iff)
  show ?thesis
    using
      failed_fetch_keeps_movies [of ?down "[]" "ascii ''All''" "Message (ascii ''down'')" ?st
        JNull "[]" TypeError "Message (ascii ''down'')"]
      failed_fetch_keeps_movies [of ?bad "[]" "ascii ''All''" "Message []" ?st
        "JObj [(ascii ''a'', JNull)]" "[]" TypeError "Message []"]
    by (simp add: d sanitize_normalized_null_member)
qed

section \<open>Properties of the error interceptor\<close>

text \<open>
  C5, as stated: a response outside 200 to 299 makes the interceptor throw an error whose
  message is the \<open>error\<close> field of the body whenever the body has that field. It
  does not hold for the body \<open>{"error": ""}\<close>: the field is there, and the message is
  the fallback text.
\<close>

theorem empty_error_field_gives_fallback:
  "\<not> (200 \<le> status \<lparr>status = 500, data = JObj [(ascii ''error'', JStr [])]\<rparr>
        \<and> status \<lparr>status = 500, data = JObj [(ascii ''error'', JStr [])]\<rparr> < 300)
   \<and> get_prop (data \<lparr>status = 500, data = JObj [(ascii ''error'', JStr [])]\<rparr>) (ascii ''error'')
        = Inr (JStr [])
   \<and> settle \<lparr>status = 500, data = JObj [(ascii ''error'', JStr [])]\<rparr> []
        = Inl (Error (JStr (ascii ''Server error occurred'')))
   \<and> settle \<lparr>status = 500, data = JObj [(ascii ''error'', JStr [])]\<rparr> []
        \<noteq> Inl (Error (JStr []))"
  by (simp add: settle_def interceptor_rejected_def ascii_Nil_iff)

text \<open>
  C5, amended: for a response outside 200 to 299 whose body is not \<open>null\<close>, the
  interceptor throws an error whose message is the \<open>error\<close> field of the body when
  that field is a string that is not empty, and the fallback text when the field is
  empty or otherwise falsy, when the body has no such field, or when the body could not
  be parsed and was left as a string; when no response was received it throws an error
  with another text.
\<close>

theorem interceptor_messages:
  assumes "\<not> (200 \<le> status r \<and> status r < 300)"
  shows
    "(\<forall>s. get_prop (data r) (ascii ''error'') = Inr (JStr s) \<and> s \<noteq> [] \<longrightarrow>
        settle r m = Inl (Error (JStr s))) \<and>
     (\<forall>v. get_prop (data r) (ascii ''error'') = Inr v \<and> \<not> truthy v \<longrightarrow>
        settle r m = Inl (Error (JStr (ascii ''Server error occurred'')))) \<and>
     (\<forall>ps. data r = JObj ps \<and> map_of ps (ascii ''error'') = None \<longrightarrow>
        settle r m = Inl (Error (JStr (ascii ''Server error occurred'')))) \<and>
     (\<forall>body. data r = JStr body \<longrightarrow>
        settle r m = Inl (Error (JStr (ascii ''Server error occurred'')))) \<and>
     interceptor_rejected \<lparr>response = None, request = True, err_message = m\<rparr> =
        Error (JStr (ascii ''No response from server. Please check if the backend is running.'')) \<and>
     ascii ''No response from server. Please check if the backend is running.'' \<noteq>
        ascii ''Server error occurred''"
  using assms
  by (auto simp: settle_def interceptor_rejected_def ascii_eq_iff)

theorem interceptor_messages_witness:
  "\<not> (200 \<le> (404::nat) \<and> (404::nat) < 300) \<and>
   settle \<lparr>status = 404, data = JObj [(ascii ''error'', JStr (ascii ''Movie not found''))]\<rparr> [] =
     Inl (Error (JStr (ascii ''Movie not found''))) \<and>
   settle \<lparr>status = 500, data = JObj [(ascii ''error'', JStr [])]\<rparr> [] =
     Inl (Error (JStr (ascii ''Server error occurred''))) \<and>
   settle \<lparr>status = 500, data = JObj []\<rparr> [] =
     Inl (Error (JStr (ascii ''Server error occurred''))) \<and>
   settle \<lparr>status = 502, data = JStr (ascii ''<html>Bad Gateway</html>'')\<rparr> [] =
     Inl (Error (JStr (ascii ''Server error occurred'')))"
  using
    interceptor_messages [of "\<lparr>status = 404, data = JObj [(ascii ''error'', JStr (ascii ''Movie not found''))]\<rparr>" "[]"]
    interceptor_messages [of "\<lparr>status = 500, data = JObj [(ascii ''error'', JStr [])]\<rparr>" "[]"]
    interceptor_messages [of "\<lparr>status = 500, data = JObj []\<rparr>" "[]"]
    interceptor_messages [of "\<lparr>status = 502, data = JStr (ascii ''<html>Bad Gateway</html>'')\<rparr>" "[]"]
  by (simp add: ascii_Nil_iff)

section \<open>Properties of the debounced fetch\<close>

lemma pending_current_run_effect:
  "timers s = [] \<Longrightarrow> pending_current (run_effect now s)"
  by (simp add: pending_current_def run_effect_def)

lemma timers_cleanup:
  "pending_current s \<Longrightarrow> timers (cleanup (s\<lparr>searchQuery := q, selectedGenre := g\<rparr>)) = []"
  by (auto simp: pending_current_def cleanup_def filter_empty_conv split: option.splits)

lemma cleanup_fields:
  "searchQuery (cleanup s) = searchQuery s" "selectedGenre (cleanup s) = selectedGenre s"
  "next_id (cleanup s) = next_id s"
  by (simp_all add: cleanup_def split: option.splits)

lemma pending_current_render: "pending_current s \<Longrightarrow> pending_current (render now q g s)"
  by (simp add: render_def pending_current_run_effect timers_cleanup)

lemma pending_current_fire: "pending_current s \<Longrightarrow> pending_current (fire now s)"
  by (simp add: pending_current_def fire_def)

lemma pending_current_step: "pending_current s \<Longrightarrow> pending_current (step s e)"
  by (cases e) (simp_all add: pending_current_render pending_current_fire)

lemma pending_current_foldl: "pending_current s \<Longrightarrow> pending_current (foldl step s evs)"
  by (induction evs arbitrary: s) (simp_all add: pending_current_step)

lemma pending_current_run: "pending_current (run t0 evs)"
  unfolding run_def mount_def
  by (intro pending_current_foldl pending_current_run_effect) simp

text \<open>
  C6. In every state the page can reach, a keystroke that changes the query to a string
  that is not empty leaves exactly one pending timer, the new one: it is due 500 ms
  later and it captured the new query, so what was pending for the previous query is
  gone. Nothing is dispatched before the 500 ms have passed, and what is dispatched then
  is the request for the new query. In every reachable state, whatever the timers
  dispatch is the request for the current query and genre.
\<close>

theorem search_is_debounced:
  assumes "s = run t0 evs" and "q \<noteq> []" and "q \<noteq> searchQuery s"
  shows
    "timers (step s (Keystroke now q)) =
       [\<lparr>timer_id = next_id s, due = now + 500, query = q, genre = selectedGenre s\<rparr>] \<and>
     (\<forall>t. t < now + 500 \<longrightarrow> dispatched t (step s (Keystroke now q)) = []) \<and>
     (\<forall>t. now + 500 \<le> t \<longrightarrow>
        dispatched t (step s (Keystroke now q)) = [page_request q (selectedGenre s)]) \<and>
     (\<forall>t. \<forall>r\<in>set (dispatched t s). r = page_request (searchQuery s) (selectedGenre s))"
proof -
  have pc: "pending_current s"
    using assms(1) by (simp add: pending_current_run)
  have tm: "timers (step s (Keystroke now q)) =
       [\<lparr>timer_id = next_id s, due = now + 500, query = q, genre = selectedGenre s\<rparr>]"
    using assms(2,3) timers_cleanup [OF pc, where q = q and g = "selectedGenre s"]
    by (simp add: render_def run_effect_def cleanup_fields)
  have "\<forall>t. \<forall>r\<in>set (dispatched t s). r = page_request (searchQuery s) (selectedGenre s)"
    using pc by (auto simp: pending_current_def dispatched_def fired_def)
  with tm show ?thesis
    by (simp add: dispatched_def fired_def)
qed

theorem search_is_debounced_witness:
  "timers (step (run 0 [Keystroke 10 (ascii ''a'')]) (Keystroke 100 (ascii ''ab''))) =
     [\<lparr>timer_id = 2, due = 600, query = ascii ''ab'', genre = ascii ''All''\<rparr>] \<and>
   dispatched 599 (step (run 0 [Keystroke 10 (ascii ''a'')]) (Keystroke 100 (ascii ''ab''))) = [] \<and>
   dispatched 600 (step (run 0 [Keystroke 10 (ascii ''a'')]) (Keystroke 100 (ascii ''ab''))) =
     [SearchMovies (ascii ''ab'') 20]"
proof -
  have r: "run 0 [Keystroke 10 (ascii ''a'')] =
      \<lparr>searchQuery = ascii ''a'', selectedGenre = ascii ''All'',
        timers = [\<lparr>timer_id = 1, due = 510, query = ascii ''a'', genre = ascii ''All''\<rparr>],
        debounceTimer = Some 1, next_id = 2\<rparr>"
    by (simp add: run_def mount_def render_def run_effect_def cleanup_def ascii_Nil_iff)
  have t: "trim (ascii ''ab'') \<noteq> []"
    by (simp add: trim_def ascii_def is_js_space_def)
  show ?thesis
    using search_is_debounced [OF refl, of "ascii ''ab''" 0 "[Keystroke 10 (ascii ''a'')]" 100]
    by (simp add: r t ascii_Nil_iff ascii_eq_iff page_request_def)
qed

section \<open>Properties of the recommendation service\<close>

text \<open>
  C8. For \<open>n > 0\<close>, \<open>getPopular\<close> returns at most \<open>n\<close> movies, in non-increasing order
  of popularity score, movies of equal score in ascending order of \<open>movie_id\<close>; for
  \<open>n <= 0\<close> it fails with \<open>InvalidArgument\<close>.
\<close>

theorem getPopular_sorted:
  "(0 < n \<longrightarrow>
      (\<exists>ms. getPopular snap n = Inr ms \<and> length ms \<le> nat n \<and>
         sorted_wrt (\<lambda>a b. popularity snap (movie_id b) < popularity snap (movie_id a) \<or>
            (popularity snap (movie_id a) = popularity snap (movie_id b) \<and> movie_id a \<le> movie_id b)) ms)) \<and>
   (n \<le> 0 \<longrightarrow> getPopular snap n = Inl InvalidArgument)"
proof -
  let ?key = "\<lambda>m. (- popularity snap (movie_id m), movie_id m)"
  have "sorted (map ?key (sort_key ?key (catalog snap)))"
    by (rule sorted_sort_key)
  then have "sorted_wrt (\<lambda>a b. ?key a \<le> ?key b) (sort_key ?key (catalog snap))"
    by (simp only: sorted_map)
  then have "sorted_wrt (\<lambda>a b. ?key a \<le> ?key b) (take (nat n) (sort_key ?key (catalog snap)))"
    by (rule sorted_wrt_take)
  then have "sorted_wrt (\<lambda>a b. popularity snap (movie_id b) < popularity snap (movie_id a) \<or>
            (popularity snap (movie_id a) = popularity snap (movie_id b) \<and> movie_id a \<le> movie_id b))
          (take (nat n) (sort_key ?key (catalog snap)))"
    by (rule sorted_wrt_mono_rel [rotated]) (auto simp: less_eq_prod_def)
  then show ?thesis
    by (simp add: getPopular_def)
qed

theorem getPopular_sorted_witness:
  "getPopular
     \<lparr>catalog = [\<lparr>movie_id = 1, title = [], genres = []\<rparr>, \<lparr>movie_id = 3, title = [], genres = []\<rparr>,
                 \<lparr>movie_id = 2, title = [], genres = []\<rparr>],
      popularity = (\<lambda>i. if i = 1 then 2 else 5),
      similarity = (\<lambda>i. [(1, 1), (2, 1 / 2), (3, 3 / 4)])\<rparr> 2 =
     Inr [\<lparr>movie_id = 2, title = [], genres = []\<rparr>, \<lparr>movie_id = 3, title = [], genres = []\<rparr>] \<and>
   getPopular
     \<lparr>catalog = [\<lparr>movie_id = 1, title = [], genres = []\<rparr>, \<lparr>movie_id = 3, title = [], genres = []\<rparr>,
                 \<lparr>movie_id = 2, title = [], genres = []\<rparr>],
      popularity = (\<lambda>i. if i = 1 then 2 else 5),
      similarity = (\<lambda>i. [(1, 1), (2, 1 / 2), (3, 3 / 4)])\<rparr> 0 = Inl InvalidArgument"
  using
    getPopular_sorted [of 2
      "\<lparr>catalog = [\<lparr>movie_id = 1, title = [], genres = []\<rparr>, \<lparr>movie_id = 3, title = [], genres = []\<rparr>,
                   \<lparr>movie_id = 2, title = [], genres = []\<rparr>],
        popularity = (\<lambda>i. if i = 1 then 2 else 5),
        similarity = (\<lambda>i. [(1, 1), (2, 1 / 2), (3, 3 / 4)])\<rparr>"]
    getPopular_sorted [of 0
      "\<lparr>catalog = [\<lparr>movie_id = 1, title = [], genres = []\<rparr>, \<lparr>movie_id = 3, title = [], genres = []\<rparr>,
                   \<lparr>movie_id = 2, title = [], genres = []\<rparr>],
        popularity = (\<lambda>i. if i = 1 then 2 else 5),
        similarity = (\<lambda>i. [(1, 1), (2, 1 / 2), (3, 3 / 4)])\<rparr>"]
  by (simp add: getPopular_def less_eq_prod_def)

text \<open>
  C7. For a movie of the catalog, \<open>getSimilar\<close> returns at most \<open>n\<close> neighbours, none of
  which is the movie itself, in non-increasing order of similarity score; for a movie
  that is not in the catalog it fails with \<open>NotFound\<close>.
\<close>

theorem getSimilar_excludes_query:
  "(movieId \<in> movie_id ` set (catalog snap) \<longrightarrow>
      (\<exists>ps. getSimilar snap movieId n = Inr ps \<and> length ps \<le> nat n \<and>
         movieId \<notin> fst ` set ps \<and> sorted_wrt (\<lambda>a b. snd b \<le> snd a) ps)) \<and>
   (movieId \<notin> movie_id ` set (catalog snap) \<longrightarrow> getSimilar snap movieId n = Inl NotFound)"
proof -
  let ?row = "filter (\<lambda>p. fst p \<noteq> movieId) (similarity snap movieId)"
  let ?key = "\<lambda>p :: int \<times> rat. - snd p"
  have "sorted (map ?key (sort_key ?key ?row))"
    by (rule sorted_sort_key)
  then have "sorted_wrt (\<lambda>a b. ?key a \<le> ?key b) (sort_key ?key ?row)"
    by (simp only: sorted_map)
  then have "sorted_wrt (\<lambda>a b. ?key a \<le> ?key b) (take (nat n) (sort_key ?key ?row))"
    by (rule sorted_wrt_take)
  then have srt: "sorted_wrt (\<lambda>a b. snd b \<le> snd a) (take (nat n) (sort_key ?key ?row))"
    by simp
  have "set (take (nat n) (sort_key ?key ?row)) \<subseteq> set ?row"
    using set_take_subset [of "nat n" "sort_key ?key ?row"] by simp
  then have "movieId \<notin> fst ` set (take (nat n) (sort_key ?key ?row))"
    by auto
  with srt show ?thesis
    by (simp add: getSimilar_def)
qed

theorem getSimilar_excludes_query_witness:
  "getSimilar
     \<lparr>catalog = [\<lparr>movie_id = 1, title = [], genres = []\<rparr>, \<lparr>movie_id = 3, title = [], genres = []\<rparr>,
                 \<lparr>movie_id = 2, title = [], genres = []\<rparr>],
      popularity = (\<lambda>i. if i = 1 then 2 else 5),
      similarity = (\<lambda>i. [(1, 1), (2, 1 / 2), (3, 3 / 4)])\<rparr> 1 5 =
     Inr [(3, 3 / 4), (2, 1 / 2)] \<and>
   getSimilar
     \<lparr>catalog = [\<lparr>movie_id = 1, title = [], genres = []\<rparr>, \<lparr>movie_id = 3, title = [], genres = []\<rparr>,
                 \<lparr>movie_id = 2, title = [], genres = []\<rparr>],
      popularity = (\<lambda>i. if i = 1 then 2 else 5),
      similarity = (\<lambda>i. [(1, 1), (2, 1 / 2), (3, 3 / 4)])\<rparr> 7 5 = Inl NotFound"
  using
    getSimilar_excludes_query [of 1
      "\<lparr>catalog = [\<lparr>movie_id = 1, title = [], genres = []\<rparr>, \<lparr>movie_id = 3, title = [], genres = []\<rparr>,
                   \<lparr>movie_id = 2, title = [], genres = []\<rparr>],
        popularity = (\<lambda>i. if i = 1 then 2 else 5),
        similarity = (\<lambda>i. [(1, 1), (2, 1 / 2), (3, 3 / 4)])\<rparr>" 5]
    getSimilar_excludes_query [of 7
      "\<lparr>catalog = [\<lparr>movie_id = 1, title = [], genres = []\<rparr>, \<lparr>movie_id = 3, title = [], genres = []\<rparr>,
                   \<lparr>movie_id = 2, title = [], genres = []\<rparr>],
        popularity = (\<lambda>i. if i = 1 then 2 else 5),
        similarity = (\<lambda>i. [(1, 1), (2, 1 / 2), (3, 3 / 4)])\<rparr>" 5]
  by (simp add: getSimilar_def)

end
